theory Spec2Isabelle
  imports Main "HOL-Library.Word" "HOL-Library.AList"
begin

section \<open>Go strings\<close>

text \<open>
  A Go string is a sequence of bytes, so it is a \<^typ>\<open>string\<close> here (a list of 8-bit
  characters); text outside ASCII is written as its UTF-8 bytes. The functions of package
  \<^verbatim>\<open>strings\<close> that the program calls follow the Go standard library.
\<close>

definition is_ascii :: "char \<Rightarrow> bool" where
  \<comment> \<open>\<^verbatim>\<open>c < utf8.RuneSelf\<close>\<close>
  "is_ascii c = ((of_char c :: nat) < 128)"

definition ascii_lower :: "char \<Rightarrow> char" where
  \<comment> \<open>\<^verbatim>\<open>if 'A' <= c && c <= 'Z' { c += 'a' - 'A' }\<close>\<close>
  "ascii_lower c =
     (if 65 \<le> (of_char c :: nat) \<and> (of_char c :: nat) \<le> 90
      then char_of ((of_char c :: nat) + 32) else c)"

definition ToLower :: "(string \<Rightarrow> string) \<Rightarrow> string \<Rightarrow> string" where
  \<comment> \<open>\<^verbatim>\<open>strings.ToLower\<close>: an ASCII-only string is lowered byte by byte; any other string goes
      through \<^verbatim>\<open>strings.Map(unicode.ToLower, s)\<close>, whose Unicode tables are the parameter
      \<open>unicode_lower\<close>.\<close>
  "ToLower unicode_lower s =
     (if list_all is_ascii s then map ascii_lower s else unicode_lower s)"

fun HasPrefix :: "string \<Rightarrow> string \<Rightarrow> bool" where
  \<comment> \<open>\<^verbatim>\<open>strings.HasPrefix(s, prefix)\<close>\<close>
  "HasPrefix s [] = True"
| "HasPrefix [] (p # ps) = False"
| "HasPrefix (c # cs) (p # ps) = (c = p \<and> HasPrefix cs ps)"

fun Contains :: "string \<Rightarrow> string \<Rightarrow> bool" where
  \<comment> \<open>\<^verbatim>\<open>strings.Contains(s, substr)\<close>: \<open>substr\<close> starts at some position of \<open>s\<close>\<close>
  "Contains [] substr = (substr = [])"
| "Contains (c # cs) substr = (HasPrefix (c # cs) substr \<or> Contains cs substr)"

section \<open>Package sitecheck: data\<close>

record Site =
  Name :: string
  URL :: string

definition DefaultSites :: "Site list" where
  "DefaultSites =
    [\<lparr>Site.Name = ''ChatGPT'', Site.URL = ''https://chat.openai.com''\<rparr>,
     \<lparr>Site.Name = ''Gemini'', Site.URL = ''https://gemini.google.com''\<rparr>,
     \<lparr>Site.Name = ''Claude'', Site.URL = ''https://claude.ai''\<rparr>,
     \<lparr>Site.Name = ''Google'', Site.URL = ''https://www.google.com''\<rparr>,
     \<lparr>Site.Name = ''YouTube'', Site.URL = ''https://www.youtube.com''\<rparr>,
     \<lparr>Site.Name = ''Netflix'', Site.URL = ''https://www.netflix.com''\<rparr>]"

record Result =
  Name :: string
  URL :: string
  OK :: bool
  LatencyMs :: "64 word"
  Error :: string

definition blockPhrases :: "string list" where
  "blockPhrases =
    [
     ''isn't available'',
     ''not available in your'',
     ''not available in this'',
     ''service is not available'',
     ''service isn't available'',
     ''unavailable in your'',
     ''unavailable in this'',
     ''access restricted'',
     [CHR 0xD0, CHR 0xB4, CHR 0xD0, CHR 0xBE, CHR 0xD1, CHR 0x81, CHR 0xD1, CHR 0x82, CHR
      0xD1, CHR 0x83, CHR 0xD0, CHR 0xBF, CHR '' '', CHR 0xD0, CHR 0xBE, CHR 0xD0, CHR 0xB3,
      CHR 0xD1, CHR 0x80, CHR 0xD0, CHR 0xB0, CHR 0xD0, CHR 0xBD, CHR 0xD0, CHR 0xB8, CHR
      0xD1, CHR 0x87, CHR 0xD0, CHR 0xB5, CHR 0xD0, CHR 0xBD],
     [CHR 0xD0, CHR 0xBD, CHR 0xD0, CHR 0xB5, CHR 0xD0, CHR 0xB4, CHR 0xD0, CHR 0xBE, CHR
      0xD1, CHR 0x81, CHR 0xD1, CHR 0x82, CHR 0xD1, CHR 0x83, CHR 0xD0, CHR 0xBF, CHR 0xD0,
      CHR 0xB5, CHR 0xD0, CHR 0xBD],
     [CHR 0xD0, CHR 0xBD, CHR 0xD0, CHR 0xB5, CHR '' '', CHR 0xD0, CHR 0xB4, CHR 0xD0, CHR
      0xBE, CHR 0xD1, CHR 0x81, CHR 0xD1, CHR 0x82, CHR 0xD1, CHR 0x83, CHR 0xD0, CHR 0xBF,
      CHR 0xD0, CHR 0xB5, CHR 0xD0, CHR 0xBD],
     [CHR 0xD0, CHR 0xB2, CHR '' '', CHR 0xD0, CHR 0xB2, CHR 0xD0, CHR 0xB0, CHR 0xD1, CHR
      0x88, CHR 0xD0, CHR 0xB5, CHR 0xD0, CHR 0xBC, CHR '' '', CHR 0xD1, CHR 0x80, CHR 0xD0,
      CHR 0xB5, CHR 0xD0, CHR 0xB3, CHR 0xD0, CHR 0xB8, CHR 0xD0, CHR 0xBE, CHR 0xD0, CHR
      0xBD, CHR 0xD0, CHR 0xB5],
     [CHR 0xD0, CHR 0xB2, CHR '' '', CHR 0xD1, CHR 0x8D, CHR 0xD1, CHR 0x82, CHR 0xD0, CHR
      0xBE, CHR 0xD0, CHR 0xB9, CHR '' '', CHR 0xD1, CHR 0x81, CHR 0xD1, CHR 0x82, CHR 0xD1,
      CHR 0x80, CHR 0xD0, CHR 0xB0, CHR 0xD0, CHR 0xBD, CHR 0xD0, CHR 0xB5],
     ''georestrict'',
     ''blocked in your'',
     ''blocked in this'',
     ''so'' @ ''rry, we're having trouble'',
     ''this service is not available'',
     ''not available in your country'',
     ''not available in your region'',
     ''content is not available'',
     ''video unavailable'',
     ''redirected you too many times'',
     ''connection refused'',
     ''check your connection'',
     ''something went wrong'',
     ''error code'',
     [CHR 0xD0, CHR 0xBF, CHR 0xD0, CHR 0xBE, CHR 0xD0, CHR 0xBF, CHR 0xD1, CHR 0x80, CHR
      0xD0, CHR 0xBE, CHR 0xD0, CHR 0xB1, CHR 0xD1, CHR 0x83, CHR 0xD0, CHR 0xB9, CHR 0xD1,
      CHR 0x82, CHR 0xD0, CHR 0xB5, CHR '' '', CHR 0xD0, CHR 0xBF, CHR 0xD0, CHR 0xBE, CHR
      0xD0, CHR 0xB7, CHR 0xD0, CHR 0xB6, CHR 0xD0, CHR 0xB5],
     [CHR 0xD0, CHR 0xB2, CHR 0xD1, CHR 0x80, CHR 0xD0, CHR 0xB5, CHR 0xD0, CHR 0xBC, CHR
      0xD0, CHR 0xB5, CHR 0xD0, CHR 0xBD, CHR 0xD0, CHR 0xBD, CHR 0xD0, CHR 0xBE, CHR '' '',
      CHR 0xD0, CHR 0xBD, CHR 0xD0, CHR 0xB5, CHR 0xD0, CHR 0xB4, CHR 0xD0, CHR 0xBE, CHR
      0xD1, CHR 0x81, CHR 0xD1, CHR 0x82, CHR 0xD1, CHR 0x83, CHR 0xD0, CHR 0xBF, CHR 0xD0,
      CHR 0xB5, CHR 0xD0, CHR 0xBD]]"

definition maxBodyCheck :: nat where
  "maxBodyCheck = 128 * 1024"

definition minBodySize :: nat where
  "minBodySize = 2000"

definition msg_short :: string where
  \<comment> \<open>the error text of the too-short branch of \<^verbatim>\<open>checkOne\<close> (Russian, UTF-8)\<close>
  "msg_short =
   [CHR 0xD0, CHR 0xBD, CHR 0xD0, CHR 0xB5, CHR 0xD0, CHR 0xB4, CHR 0xD0, CHR 0xBE, CHR
    0xD1, CHR 0x81, CHR 0xD1, CHR 0x82, CHR 0xD1, CHR 0x83, CHR 0xD0, CHR 0xBF, CHR 0xD0, CHR
    0xB5, CHR 0xD0, CHR 0xBD, CHR '' '', CHR ''('', CHR 0xD1, CHR 0x81, CHR 0xD0, CHR 0xBB,
    CHR 0xD0, CHR 0xB8, CHR 0xD1, CHR 0x88, CHR 0xD0, CHR 0xBA, CHR 0xD0, CHR 0xBE, CHR 0xD0,
    CHR 0xBC, CHR '' '', CHR 0xD0, CHR 0xBA, CHR 0xD0, CHR 0xBE, CHR 0xD1, CHR 0x80, CHR
    0xD0, CHR 0xBE, CHR 0xD1, CHR 0x82, CHR 0xD0, CHR 0xBA, CHR 0xD0, CHR 0xB8, CHR 0xD0, CHR
    0xB9, CHR '' '', CHR 0xD0, CHR 0xBE, CHR 0xD1, CHR 0x82, CHR 0xD0, CHR 0xB2, CHR 0xD0,
    CHR 0xB5, CHR 0xD1, CHR 0x82, CHR '','', CHR '' '', CHR 0xD0, CHR 0xB2, CHR 0xD0, CHR
    0xBE, CHR 0xD0, CHR 0xB7, CHR 0xD0, CHR 0xBC, CHR 0xD0, CHR 0xBE, CHR 0xD0, CHR 0xB6, CHR
    0xD0, CHR 0xBD, CHR 0xD0, CHR 0xBE, CHR '' '', CHR 0xD0, CHR 0xB7, CHR 0xD0, CHR 0xB0,
    CHR 0xD0, CHR 0xB3, CHR 0xD0, CHR 0xBB, CHR 0xD1, CHR 0x83, CHR 0xD1, CHR 0x88, CHR 0xD0,
    CHR 0xBA, CHR 0xD0, CHR 0xB0, CHR '')'']"

definition msg_block :: string where
  \<comment> \<open>the error text of the block-phrase branch of \<^verbatim>\<open>checkOne\<close> (Russian, UTF-8)\<close>
  "msg_block =
   [CHR 0xD0, CHR 0xBD, CHR 0xD0, CHR 0xB5, CHR 0xD0, CHR 0xB4, CHR 0xD0, CHR 0xBE, CHR
    0xD1, CHR 0x81, CHR 0xD1, CHR 0x82, CHR 0xD1, CHR 0x83, CHR 0xD0, CHR 0xBF, CHR 0xD0, CHR
    0xB5, CHR 0xD0, CHR 0xBD, CHR '' '', CHR ''('', CHR 0xD0, CHR 0xB1, CHR 0xD0, CHR 0xBB,
    CHR 0xD0, CHR 0xBE, CHR 0xD0, CHR 0xBA, CHR '' '', CHR 0xD0, CHR 0xBF, CHR 0xD0, CHR
    0xBE, CHR '' '', CHR 0xD1, CHR 0x80, CHR 0xD0, CHR 0xB5, CHR 0xD0, CHR 0xB3, CHR 0xD0,
    CHR 0xB8, CHR 0xD0, CHR 0xBE, CHR 0xD0, CHR 0xBD, CHR 0xD1, CHR 0x83, CHR '' '', CHR
    0xD0, CHR 0xB8, CHR 0xD0, CHR 0xBB, CHR 0xD0, CHR 0xB8, CHR '' '', CHR 0xD0, CHR 0xB7,
    CHR 0xD0, CHR 0xB0, CHR 0xD0, CHR 0xB3, CHR 0xD0, CHR 0xBB, CHR 0xD1, CHR 0x83, CHR 0xD1,
    CHR 0x88, CHR 0xD0, CHR 0xBA, CHR 0xD0, CHR 0xB0, CHR '')'']"

section \<open>The HTTP library as the program sees it\<close>

text \<open>
  \<^verbatim>\<open>checkOne\<close> touches the outside world through \<^verbatim>\<open>net/http\<close>, \<^verbatim>\<open>io\<close> and the clock.
  Their types are records; what they answer is an environment, a parameter of the model.
  A Go \<^verbatim>\<open>error\<close> is represented by the text its \<^verbatim>\<open>Error()\<close> method returns.
\<close>

record 'ctx Request =
  Ctx :: 'ctx
  Method :: string
  ReqURL :: string
  Header :: "(string \<times> string) list"

definition Header_Set :: "string \<Rightarrow> string \<Rightarrow> 'ctx Request \<Rightarrow> 'ctx Request" where
  \<comment> \<open>\<^verbatim>\<open>req.Header.Set(key, value)\<close>: the key gets this single value\<close>
  "Header_Set k v req = req\<lparr>Header := AList.update k v (Header req)\<rparr>"

datatype redirect_error = ErrUseLastResponse | ErrOther string

record 'ctx Client =
  Timeout :: int
  CheckRedirect :: "('ctx Request \<Rightarrow> 'ctx Request list \<Rightarrow> redirect_error option) option"

definition deadline :: "'ctx Client \<Rightarrow> int \<Rightarrow> int option" where
  \<comment> \<open>\<^verbatim>\<open>net/http\<close>, \<^verbatim>\<open>Client.Timeout\<close>: a request started at \<open>now\<close> is cut off at
      \<open>now + Timeout\<close>; "a Timeout of zero means no timeout", and the library tests
      \<^verbatim>\<open>c.Timeout > 0\<close>.\<close>
  "deadline c now = (if 0 < Timeout c then Some (now + Timeout c) else None)"

record ReadCloser =
  content :: string
  read_error :: "string option"

text \<open>
  A response body is a stream that delivers \<open>content\<close> and then ends, or fails with
  \<open>read_error\<close> on the read that follows its last byte.
\<close>

definition LimitReader :: "ReadCloser \<Rightarrow> nat \<Rightarrow> ReadCloser" where
  \<comment> \<open>\<^verbatim>\<open>io.LimitReader(r, n)\<close>: end of file after \<open>n\<close> bytes, without reading \<open>r\<close> further\<close>
  "LimitReader r n =
     (if n \<le> length (content r) then \<lparr>content = take n (content r), read_error = None\<rparr>
      else r)"

definition ReadAll :: "ReadCloser \<Rightarrow> string \<times> string option" where
  \<comment> \<open>\<^verbatim>\<open>io.ReadAll(r)\<close>: the bytes read and the error, if any\<close>
  "ReadAll r = (content r, read_error r)"

record Response =
  StatusCode :: int
  Status :: string
  Body :: ReadCloser

record 'ctx env =
  unicode_lower :: "string \<Rightarrow> string"
  NewRequestWithContext :: "'ctx \<Rightarrow> string \<Rightarrow> string \<Rightarrow> string + 'ctx Request"
  Do :: "nat \<Rightarrow> 'ctx Client \<Rightarrow> 'ctx Request \<Rightarrow> string + Response"
  Since_Milliseconds :: "nat \<Rightarrow> 64 word"

text \<open>
  \<open>Do env n c req\<close> is the outcome of the \<open>n\<close>-th call of \<^verbatim>\<open>client.Do\<close> of a run (the
  network may answer the same request differently each time) and \<open>Since_Milliseconds env n\<close>
  is what \<^verbatim>\<open>time.Since(start).Milliseconds()\<close> gives after it. The state threaded through
  the program is the list of the calls of \<^verbatim>\<open>client.Do\<close> made so far, oldest first.
\<close>

type_synonym 'ctx fetches = "('ctx Client \<times> 'ctx Request) list"

section \<open>Package sitecheck: operations\<close>

fun any_phrase :: "string \<Rightarrow> string list \<Rightarrow> bool" where
  \<comment> \<open>the loop over \<^verbatim>\<open>blockPhrases\<close> in \<^verbatim>\<open>checkOne\<close>: true when it returns from inside\<close>
  "any_phrase bodyStr [] = False"
| "any_phrase bodyStr (phrase # rest) =
     (if Contains bodyStr phrase then True else any_phrase bodyStr rest)"

definition user_agent :: string where
  "user_agent = ''Mozilla/5.0 (Windows NT 10.0; rv:131.0) Gecko/20100101 Firefox/131.0''"

definition accept :: string where
  "accept = ''text/html,application/xhtml+xml,application/xml;q=0.9,*/*;q=0.8''"

definition checkOne ::
  "'ctx env \<Rightarrow> 'ctx \<Rightarrow> 'ctx Client option \<Rightarrow> Site \<Rightarrow> int \<Rightarrow> 'ctx fetches
     \<Rightarrow> (Result \<times> 'ctx fetches) option" where
  \<comment> \<open>\<open>None\<close> is the panic of \<^verbatim>\<open>client.Do\<close> on a nil client. The argument \<open>timeout\<close> is not
      used, as in the source.\<close>
  "checkOne env ctx client site timeout w =
     (case NewRequestWithContext env ctx ''GET'' (Site.URL site) of
        Inl err \<Rightarrow>
          Some (\<lparr>Result.Name = Site.Name site, Result.URL = Site.URL site, OK = False,
                  LatencyMs = 0, Error = err\<rparr>, w)
      | Inr req0 \<Rightarrow>
          (case client of
             None \<Rightarrow> None
           | Some c \<Rightarrow>
               (let req = Header_Set ''Accept'' accept (Header_Set ''User-Agent'' user_agent req0);
                    resp_err = Do env (length w) c req;
                    w' = w @ [(c, req)];
                    elapsed = Since_Milliseconds env (length w)
                in case resp_err of
                     Inl err \<Rightarrow>
                       Some (\<lparr>Result.Name = Site.Name site, Result.URL = Site.URL site,
                               OK = False, LatencyMs = elapsed, Error = err\<rparr>, w')
                   | Inr resp \<Rightarrow>
                       if StatusCode resp < 200 \<or> StatusCode resp \<ge> 400 then
                         Some (\<lparr>Result.Name = Site.Name site, Result.URL = Site.URL site,
                                 OK = False, LatencyMs = elapsed,
                                 Error = ''HTTP '' @ Status resp\<rparr>, w')
                       else
                         (case ReadAll (LimitReader (Body resp) maxBodyCheck) of
                            (body, Some err) \<Rightarrow>
                              Some (\<lparr>Result.Name = Site.Name site, Result.URL = Site.URL site,
                                      OK = False, LatencyMs = elapsed, Error = err\<rparr>, w')
                          | (body, None) \<Rightarrow>
                              if length body < minBodySize then
                                Some (\<lparr>Result.Name = Site.Name site,
                                        Result.URL = Site.URL site, OK = False,
                                        LatencyMs = elapsed, Error = msg_short\<rparr>, w')
                              else if any_phrase (ToLower (unicode_lower env) body) blockPhrases
                              then
                                Some (\<lparr>Result.Name = Site.Name site,
                                        Result.URL = Site.URL site, OK = False,
                                        LatencyMs = elapsed, Error = msg_block\<rparr>, w')
                              else
                                Some (\<lparr>Result.Name = Site.Name site,
                                        Result.URL = Site.URL site, OK = True,
                                        LatencyMs = elapsed, Error = []\<rparr>, w')))))"

definition CheckOne ::
  "'ctx env \<Rightarrow> 'ctx \<Rightarrow> 'ctx Client option \<Rightarrow> Site \<Rightarrow> int \<Rightarrow> 'ctx fetches
     \<Rightarrow> (Result \<times> 'ctx fetches) option" where
  "CheckOne env ctx client site timeout w = checkOne env ctx client site timeout w"

fun Check_loop ::
  "'ctx env \<Rightarrow> 'ctx \<Rightarrow> 'ctx Client option \<Rightarrow> int \<Rightarrow> Site list \<Rightarrow> Result list \<Rightarrow> 'ctx fetches
     \<Rightarrow> (Result list \<times> 'ctx fetches) option" where
  \<comment> \<open>\<^verbatim>\<open>for _, site := range sites { r := checkOne(...); results = append(results, r) }\<close>\<close>
  "Check_loop env ctx client timeout [] results w = Some (results, w)"
| "Check_loop env ctx client timeout (site # rest) results w =
     (case checkOne env ctx client site timeout w of
        None \<Rightarrow> None
      | Some (r, w') \<Rightarrow> Check_loop env ctx client timeout rest (results @ [r]) w')"

definition default_CheckRedirect ::
  "'ctx Request \<Rightarrow> 'ctx Request list \<Rightarrow> redirect_error option" where
  \<comment> \<open>the function literal in \<^verbatim>\<open>Check\<close>\<close>
  "default_CheckRedirect req via = Some ErrUseLastResponse"

definition Check ::
  "'ctx env \<Rightarrow> 'ctx \<Rightarrow> 'ctx Client option \<Rightarrow> Site list \<Rightarrow> int \<Rightarrow> 'ctx fetches
     \<Rightarrow> (Result list \<times> 'ctx fetches) option" where
  "Check env ctx client sites timeout w =
     (let client' =
            (case client of
               None \<Rightarrow> \<lparr>Timeout = timeout, CheckRedirect = Some default_CheckRedirect\<rparr>
             | Some c \<Rightarrow> c)
      in Check_loop env ctx (Some client') timeout sites [] w)"

fun SiteByURL_from :: "Site list \<Rightarrow> nat \<Rightarrow> string \<Rightarrow> nat option" where
  \<comment> \<open>\<^verbatim>\<open>for i := range DefaultSites\<close>, from index \<open>i\<close> on; a \<^verbatim>\<open>*Site\<close> into the slice is the
      index of the entry it points to, nil is \<open>None\<close>\<close>
  "SiteByURL_from [] i url = None"
| "SiteByURL_from (s # rest) i url =
     (if Site.URL s = url then Some i else SiteByURL_from rest (Suc i) url)"

definition SiteByURL :: "string \<Rightarrow> nat option" where
  "SiteByURL url = SiteByURL_from DefaultSites 0 url"

fun SiteByName_from :: "(string \<Rightarrow> string) \<Rightarrow> Site list \<Rightarrow> nat \<Rightarrow> string \<Rightarrow> nat option" where
  "SiteByName_from ul [] i lower = None"
| "SiteByName_from ul (s # rest) i lower =
     (if ToLower ul (Site.Name s) = lower then Some i
      else SiteByName_from ul rest (Suc i) lower)"

definition SiteByName :: "(string \<Rightarrow> string) \<Rightarrow> string \<Rightarrow> nat option" where
  "SiteByName ul name =
     (let lower = ToLower ul name in SiteByName_from ul DefaultSites 0 lower)"

section \<open>Environments used to evaluate the model\<close>

definition site_claude :: Site where
  "site_claude = \<lparr>Site.Name = ''Claude'', Site.URL = ''https://claude.ai''\<rparr>"

definition plain_request :: "unit \<Rightarrow> string \<Rightarrow> string \<Rightarrow> string + unit Request" where
  "plain_request ctx m u = Inr \<lparr>Ctx = ctx, Method = m, ReqURL = u, Header = []\<rparr>"

definition client0 :: "unit Client" where
  "client0 = \<lparr>Timeout = 5000000000, CheckRedirect = None\<rparr>"

definition env_page :: "unit env" where
  \<comment> \<open>every request is answered 200 with a page of 2000 bytes \<^verbatim>\<open>0\<close>\<close>
  "env_page =
     \<lparr>unicode_lower = id,
      NewRequestWithContext = plain_request,
      Do = (\<lambda>n c req. Inr \<lparr>StatusCode = 200, Status = ''200 OK'',
              Body = \<lparr>content = replicate 2000 (CHR ''0''), read_error = None\<rparr>\<rparr>),
      Since_Milliseconds = (\<lambda>n. 42)\<rparr>"

definition env_broken_body :: "unit env" where
  \<comment> \<open>every request is answered 200 with a body whose first read fails, the error's text
      being empty (\<^verbatim>\<open>errors.New("")\<close>)\<close>
  "env_broken_body =
     \<lparr>unicode_lower = id,
      NewRequestWithContext = plain_request,
      Do = (\<lambda>n c req. Inr \<lparr>StatusCode = 200, Status = ''200 OK'',
              Body = \<lparr>content = [], read_error = Some []\<rparr>\<rparr>),
      Since_Milliseconds = (\<lambda>n. 42)\<rparr>"

definition env_moved :: "unit env" where
  \<comment> \<open>every request is answered 301 with an empty body\<close>
  "env_moved =
     \<lparr>unicode_lower = id,
      NewRequestWithContext = plain_request,
      Do = (\<lambda>n c req. Inr \<lparr>StatusCode = 301, Status = ''301 Moved Permanently'',
              Body = \<lparr>content = [], read_error = None\<rparr>\<rparr>),
      Since_Milliseconds = (\<lambda>n. 42)\<rparr>"

definition env_status_text_error :: "unit env" where
  \<comment> \<open>every request is answered 200 with a body whose first read fails, the error's text
      being \<^verbatim>\<open>HTTP 200 OK\<close>\<close>
  "env_status_text_error =
     \<lparr>unicode_lower = id,
      NewRequestWithContext = plain_request,
      Do = (\<lambda>n c req. Inr \<lparr>StatusCode = 200, Status = ''200 OK'',
              Body = \<lparr>content = [], read_error = Some ''HTTP 200 OK''\<rparr>\<rparr>),
      Since_Milliseconds = (\<lambda>n. 42)\<rparr>"

definition fetch_deadlines :: "int \<Rightarrow> 'ctx fetches \<Rightarrow> int option list" where
  \<comment> \<open>the deadline of each recorded fetch, had it started at \<open>now\<close>\<close>
  "fetch_deadlines now w = map (\<lambda>(c, req). deadline c now) w"

section \<open>Package main: launch\<close>

text \<open>
  \<^verbatim>\<open>main\<close> reads its flags, decides the mode and calls \<^verbatim>\<open>RunBackend\<close>. The model starts
  after a successful \<^verbatim>\<open>flag.Parse()\<close>: \<open>flags\<close> holds, for each flag, the value given on
  the command line, if any. \<^verbatim>\<open>RunBackend\<close>, \<^verbatim>\<open>waitForShutdown\<close>, the \<^verbatim>\<open>default...\<close>
  constants and the Wails application are declared outside the files at hand: the constants
  and what \<^verbatim>\<open>RunBackend\<close> and \<^verbatim>\<open>app.Run\<close> answer are parameters, and a run of \<^verbatim>\<open>main\<close> is
  the list of the calls it makes, in order.
\<close>

definition ascii_space :: "char \<Rightarrow> bool" where
  \<comment> \<open>tab, line feed, vertical tab, form feed, carriage return, space\<close>
  "ascii_space c = ((of_char c :: nat) \<in> {9, 10, 11, 12, 13, 32})"

definition TrimSpace :: "(string \<Rightarrow> string) \<Rightarrow> string \<Rightarrow> string" where
  \<comment> \<open>\<^verbatim>\<open>strings.TrimSpace\<close>: white space is cut at both ends; in an ASCII-only string the
      white space is \<open>ascii_space\<close>, for any other string the result is the parameter
      \<open>unicode_trim\<close> (the Unicode tables).\<close>
  "TrimSpace unicode_trim s =
     (if list_all is_ascii s then rev (dropWhile ascii_space (rev (dropWhile ascii_space s)))
      else unicode_trim s)"

type_synonym environ = "(string \<times> string) list"

text \<open>
  The process environment: an entry \<^verbatim>\<open>KEY=value\<close> of \<^verbatim>\<open>os.Environ()\<close> is the pair
  \<open>(KEY, value)\<close>, so the key is what \<^verbatim>\<open>strings.SplitN(entry, "=", 2)[0]\<close> gives.
\<close>

definition os_Getenv :: "environ \<Rightarrow> string \<Rightarrow> string" where
  "os_Getenv e k = (case map_of e k of None \<Rightarrow> [] | Some v \<Rightarrow> v)"

definition os_Setenv :: "string \<Rightarrow> string \<Rightarrow> environ \<Rightarrow> environ" where
  "os_Setenv k v e = AList.update k v e"

definition os_Unsetenv :: "string \<Rightarrow> environ \<Rightarrow> environ" where
  "os_Unsetenv k e = AList.delete k e"

record BackendOptions =
  Mode :: string
  GRPCAddr :: string
  HTTPAddr :: string
  DataDir :: string
  HubAddr :: string
  ModuleID :: string
  Version :: string
  StartHTTP :: bool

record defaults =
  defaultListenAddr :: string
  defaultHTTPAddr :: string
  defaultDataDir :: string
  defaultModuleID :: string
  defaultVersion :: string

record flags =
  flag_mode :: "string option"
  flag_ui :: "bool option"
  flag_addr :: "string option"
  flag_http_addr :: "string option"
  flag_data_dir :: "string option"
  flag_hub_addr :: "string option"
  flag_module_id :: "string option"
  flag_version :: "string option"

definition flag_value :: "'a option \<Rightarrow> 'a \<Rightarrow> 'a" where
  \<comment> \<open>\<^verbatim>\<open>flag.String(name, def, usage)\<close> after parsing: the value given, else the default\<close>
  "flag_value given def = (case given of None \<Rightarrow> def | Some v \<Rightarrow> v)"

record 'srv runtime =
  lower_tables :: "string \<Rightarrow> string"
  trim_tables :: "string \<Rightarrow> string"
  RunBackend :: "environ \<Rightarrow> BackendOptions \<Rightarrow> string + 'srv"
  app_Run :: "string option"

datatype 'srv event =
    RunBackendCalled BackendOptions
  | GoWaitForShutdown 'srv
  | WaitForShutdown 'srv
  | AppRun
  | GracefulStop 'srv
  | LogFatal string

definition shouldShowUIFromEnv :: "'srv runtime \<Rightarrow> environ \<Rightarrow> bool" where
  "shouldShowUIFromEnv rt e =
     (let v = TrimSpace (trim_tables rt) (ToLower (lower_tables rt) (os_Getenv e ''NEKKUS_SHOW_UI''))
      in if v = [] then False
         else v = ''1'' \<or> v = ''true'' \<or> v = ''yes'' \<or> v = ''on'')"

definition clearDevServerEnv :: "environ \<Rightarrow> environ" where
  \<comment> \<open>the loop runs over the entries as they were when \<^verbatim>\<open>os.Environ()\<close> was called\<close>
  "clearDevServerEnv e =
     fold (\<lambda>entry acc.
             if HasPrefix (fst entry) ''WAILS'' \<or> HasPrefix (fst entry) ''VITE''
             then os_Unsetenv (fst entry) acc else acc) e e"

definition runWailsUI :: "'srv runtime \<Rightarrow> 'srv event list \<times> bool" where
  \<comment> \<open>the calls made, and whether the function returns (\<^verbatim>\<open>log.Fatal\<close> ends the process)\<close>
  "runWailsUI rt =
     (case app_Run rt of
        None \<Rightarrow> ([AppRun], True)
      | Some err \<Rightarrow> ([AppRun, LogFatal err], False))"

definition main :: "defaults \<Rightarrow> 'srv runtime \<Rightarrow> flags \<Rightarrow> environ \<Rightarrow> 'srv event list \<times> environ" where
  "main d rt fl e =
     (let mode = flag_value (flag_mode fl) ''standalone'';
          showUI0 = flag_value (flag_ui fl) False;
          listenAddr = flag_value (flag_addr fl) (defaultListenAddr d);
          httpAddr = flag_value (flag_http_addr fl) (defaultHTTPAddr d);
          dataDir = flag_value (flag_data_dir fl) (defaultDataDir d);
          hubAddr = flag_value (flag_hub_addr fl) (os_Getenv e ''NEKKUS_HUB_ADDR'');
          moduleID = flag_value (flag_module_id fl) (defaultModuleID d);
          version = flag_value (flag_version fl) (defaultVersion d);
          showUI = (if \<not> showUI0 then shouldShowUIFromEnv rt e else showUI0)
      in if mode = ''hub'' then
           (let e' = (if showUI then
                        os_Setenv ''VITE_DEV_SERVER_URL'' []
                          (os_Setenv ''WAILS_DEVSERVER_URL'' []
                            (os_Setenv ''WAILS_VITE_DEV_SERVER_URL'' []
                              (os_Setenv ''WAILS_DEV_SERVER_URL'' []
                                (os_Setenv ''WAILS_ENV'' ''production'' (clearDevServerEnv e)))))
                      else e);
                startHTTP = showUI;
                opts = \<lparr>Mode = ''hub'', GRPCAddr = listenAddr, HTTPAddr = httpAddr,
                         DataDir = dataDir, HubAddr = hubAddr, ModuleID = moduleID,
                         Version = version, StartHTTP = startHTTP\<rparr>
            in case RunBackend rt e' opts of
                 Inl err \<Rightarrow> ([RunBackendCalled opts, LogFatal err], e')
               | Inr grpcServer \<Rightarrow>
                   if showUI then
                     (let (ui, returned) = runWailsUI rt
                      in ([RunBackendCalled opts, GoWaitForShutdown grpcServer] @ ui @
                          (if returned then [GracefulStop grpcServer] else []), e'))
                   else ([RunBackendCalled opts, WaitForShutdown grpcServer], e'))
         else
           (let opts = \<lparr>Mode = ''standalone'', GRPCAddr = listenAddr, HTTPAddr = httpAddr,
                         DataDir = dataDir, HubAddr = hubAddr, ModuleID = moduleID,
                         Version = version, StartHTTP = True\<rparr>
            in case RunBackend rt e opts of
                 Inl err \<Rightarrow> ([RunBackendCalled opts, LogFatal err], e)
               | Inr grpcServer \<Rightarrow> ([RunBackendCalled opts] @ fst (runWailsUI rt), e)))"

fun backend_calls :: "'srv event list \<Rightarrow> BackendOptions list" where
  \<comment> \<open>the options of the calls of \<^verbatim>\<open>RunBackend\<close> in a run\<close>
  "backend_calls [] = []"
| "backend_calls (RunBackendCalled opts # evs) = opts # backend_calls evs"
| "backend_calls (ev # evs) = backend_calls evs"

definition no_flags :: flags where
  "no_flags = \<lparr>flag_mode = None, flag_ui = None, flag_addr = None, flag_http_addr = None,
                flag_data_dir = None, flag_hub_addr = None, flag_module_id = None,
                flag_version = None\<rparr>"

definition defaults0 :: defaults where
  "defaults0 = \<lparr>defaultListenAddr = ''127.0.0.1:50051'', defaultHTTPAddr = ''127.0.0.1:8080'',
                 defaultDataDir = ''data'', defaultModuleID = ''net'', defaultVersion = ''0.1.0''\<rparr>"

definition runtime0 :: "unit runtime" where
  \<comment> \<open>a backend that starts whatever its options and an application that runs\<close>
  "runtime0 = \<lparr>lower_tables = id, trim_tables = id, RunBackend = (\<lambda>e opts. Inr ()),
                app_Run = None\<rparr>"

section \<open>Package vpn: hiding the console window (Windows)\<close>

record SysProcAttr =
  HideWindow :: bool
  CmdLine :: string
  CreationFlags :: "32 word"
  Token :: nat
  ProcessAttributes :: "nat option"
  ThreadAttributes :: "nat option"
  NoInheritHandles :: bool
  AdditionalInheritedHandles :: "nat list"
  ParentProcess :: nat

record Cmd =
  Path :: string
  Args :: "string list"
  Env :: "string list"
  Dir :: string
  Stdin :: "nat option"
  Stdout :: "nat option"
  Stderr :: "nat option"
  SysProcAttr :: "SysProcAttr option"

text \<open>
  The fields are those of \<^verbatim>\<open>syscall.SysProcAttr\<close> (Windows) and of \<^verbatim>\<open>exec.Cmd\<close> that a
  caller sets; handles, readers and writers are numbers, a nil pointer or interface is
  \<open>None\<close>. A \<^verbatim>\<open>*exec.Cmd\<close> is an address in a store of commands, so that what the function
  does to the other commands is visible; a non-nil pointer of Go always has its object in
  the store.
\<close>

type_synonym store = "nat \<rightharpoonup> Cmd"

definition hide_window_attr :: SysProcAttr where
  \<comment> \<open>\<^verbatim>\<open>syscall.SysProcAttr{HideWindow: true}\<close>: the other fields have their zero value\<close>
  "hide_window_attr =
     \<lparr>HideWindow = True, CmdLine = [], CreationFlags = 0, Token = 0, ProcessAttributes = None,
      ThreadAttributes = None, NoInheritHandles = False, AdditionalInheritedHandles = [],
      ParentProcess = 0\<rparr>"

definition setProcessNoWindow :: "nat option \<Rightarrow> store \<Rightarrow> store" where
  "setProcessNoWindow cmd h =
     (case cmd of
        None \<Rightarrow> h
      | Some a \<Rightarrow>
          (case h a of
             None \<Rightarrow> h
           | Some c \<Rightarrow> h(a \<mapsto> c\<lparr>SysProcAttr := Some hide_window_attr\<rparr>)))"

definition cmd0 :: Cmd where
  "cmd0 = \<lparr>Path = ''sing-box'', Args = [''sing-box'', ''run''], Env = [], Dir = [],
            Stdin = None, Stdout = Some 1, Stderr = Some 2, SysProcAttr = None\<rparr>"

section \<open>Facts about the string functions\<close>

lemma HasPrefix_iff: "HasPrefix s p \<longleftrightarrow> (\<exists>post. s = p @ post)"
  by (induction s p rule: HasPrefix.induct) auto

lemma Contains_iff: "Contains s sub \<longleftrightarrow> (\<exists>pre post. s = pre @ sub @ post)"
proof (induction s)
  case Nil
  then show ?case by auto
next
  case (Cons c cs)
  show ?case
  proof
    assume "Contains (c # cs) sub"
    then consider "HasPrefix (c # cs) sub" | "Contains cs sub" by auto
    then show "\<exists>pre post. c # cs = pre @ sub @ post"
    proof cases
      case 1
      then obtain post where "c # cs = sub @ post" by (auto simp: HasPrefix_iff)
      then have "c # cs = [] @ sub @ post" by simp
      then show ?thesis by blast
    next
      case 2
      then obtain pre post where "cs = pre @ sub @ post" using Cons.IH by blast
      then have "c # cs = (c # pre) @ sub @ post" by simp
      then show ?thesis by blast
    qed
  next
    assume "\<exists>pre post. c # cs = pre @ sub @ post"
    then obtain pre post where eq: "c # cs = pre @ sub @ post" by blast
    show "Contains (c # cs) sub"
    proof (cases pre)
      case Nil
      with eq have "HasPrefix (c # cs) sub" by (auto simp: HasPrefix_iff)
      then show ?thesis by simp
    next
      case (Cons a pre')
      with eq have "cs = pre' @ sub @ post" by simp
      then have "Contains cs sub" using Cons.IH by blast
      then show ?thesis by simp
    qed
  qed
qed

lemma any_phrase_iff: "any_phrase b ps \<longleftrightarrow> (\<exists>p \<in> set ps. Contains b p)"
  by (induction ps) auto

section \<open>Facts about \<^verbatim>\<open>checkOne\<close> and \<^verbatim>\<open>Check\<close>\<close>

lemma checkOne_non_nil:
  "\<exists>r w'. checkOne env ctx (Some c) site timeout w = Some (r, w')"
  by (auto simp: checkOne_def Let_def split: sum.splits prod.splits option.splits)

lemma checkOne_Name_URL:
  "checkOne env ctx client site timeout w = Some (r, w') \<Longrightarrow>
     Result.Name r = Site.Name site \<and> Result.URL r = Site.URL site"
  by (auto simp: checkOne_def Let_def split: sum.splits prod.splits option.splits if_splits)

lemma Contains_replicate_other:
  "p \<noteq> c \<Longrightarrow> \<not> Contains (replicate n c) (p # ps)"
  by (induction n) auto

lemma ToLower_replicate_digit: "ToLower ul (replicate n (CHR ''0'')) = replicate n (CHR ''0'')"
  by (simp add: ToLower_def is_ascii_def ascii_lower_def list_all_iff)

lemma msg_short_nonempty: "msg_short \<noteq> []"
  by (simp add: msg_short_def)

lemma msg_block_nonempty: "msg_block \<noteq> []"
  by (simp add: msg_block_def)

lemma msg_short_not_HTTP: "\<not> HasPrefix msg_short ''HTTP ''"
  by (simp add: msg_short_def)

lemma msg_block_not_HTTP: "\<not> HasPrefix msg_block ''HTTP ''"
  by (simp add: msg_block_def)

lemma msg_short_neq_HTTP: "msg_short \<noteq> CHR ''H'' # s"
  by (simp add: msg_short_def)

lemma msg_block_neq_HTTP: "msg_block \<noteq> CHR ''H'' # s"
  by (simp add: msg_block_def)

lemma checkOne_fetches:
  "checkOne env ctx (Some c) site timeout w = Some (r, w') \<Longrightarrow>
     w' = w \<or> (\<exists>req. w' = w @ [(c, req)])"
  by (auto simp: checkOne_def Let_def split: sum.splits prod.splits option.splits if_splits)

lemma Check_loop_results:
  "\<exists>rs new. Check_loop env ctx (Some c) timeout sites acc w = Some (acc @ rs, w @ new) \<and>
     map (\<lambda>r. (Result.Name r, Result.URL r)) rs = map (\<lambda>s. (Site.Name s, Site.URL s)) sites \<and>
     length new \<le> length sites \<and> fst ` set new \<subseteq> {c}"
proof (induction sites arbitrary: acc w)
  case Nil
  then show ?case by simp
next
  case (Cons site rest)
  obtain r w1 where one: "checkOne env ctx (Some c) site timeout w = Some (r, w1)"
    using checkOne_non_nil [of env ctx c site timeout w] by auto
  from checkOne_fetches [OF one] obtain n1 where
    w1: "w1 = w @ n1" and n1: "length n1 \<le> 1" "fst ` set n1 \<subseteq> {c}"
    by (cases "w1 = w") auto
  from Cons.IH [of "acc @ [r]" w1] obtain rs new where
    loop: "Check_loop env ctx (Some c) timeout rest (acc @ [r]) w1 = Some ((acc @ [r]) @ rs, w1 @ new)"
    and names: "map (\<lambda>r. (Result.Name r, Result.URL r)) rs = map (\<lambda>s. (Site.Name s, Site.URL s)) rest"
    and len: "length new \<le> length rest" and cl: "fst ` set new \<subseteq> {c}"
    by blast
  have "Check_loop env ctx (Some c) timeout (site # rest) acc w = Some (acc @ (r # rs), w @ (n1 @ new))"
    using one loop w1 by simp
  moreover have "map (\<lambda>r. (Result.Name r, Result.URL r)) (r # rs) =
      map (\<lambda>s. (Site.Name s, Site.URL s)) (site # rest)"
    using names checkOne_Name_URL [OF one] by simp
  moreover have "length (n1 @ new) \<le> length (site # rest)"
    using n1 len by simp
  moreover have "fst ` set (n1 @ new) \<subseteq> {c}"
    using n1 cl by auto
  ultimately show ?case by blast
qed

lemma checkOne_env_page:
  "checkOne env_page () (Some c) site_claude t w =
     Some (\<lparr>Result.Name = ''Claude'', Result.URL = ''https://claude.ai'', OK = True,
             LatencyMs = 42, Error = []\<rparr>,
           w @ [(c, Header_Set ''Accept'' accept (Header_Set ''User-Agent'' user_agent
                  \<lparr>Ctx = (), Method = ''GET'', ReqURL = ''https://claude.ai'', Header = []\<rparr>))])"
  by (simp add: checkOne_def env_page_def plain_request_def site_claude_def Let_def ReadAll_def
        LimitReader_def maxBodyCheck_def minBodySize_def ToLower_replicate_digit any_phrase_iff
        blockPhrases_def Contains_replicate_other)

lemma name_url_DefaultSites:
  "map (\<lambda>s. (Site.Name s, Site.URL s)) DefaultSites =
     [(''ChatGPT'', ''https://chat.openai.com''), (''Gemini'', ''https://gemini.google.com''),
      (''Claude'', ''https://claude.ai''), (''Google'', ''https://www.google.com''),
      (''YouTube'', ''https://www.youtube.com''), (''Netflix'', ''https://www.netflix.com'')]"
  by (simp add: DefaultSites_def)

section \<open>Facts about the lookups in \<open>DefaultSites\<close>\<close>

lemma SiteByURL_from_Some:
  "SiteByURL_from xs k url = Some i \<longleftrightarrow>
     k \<le> i \<and> i - k < length xs \<and> Site.URL (xs ! (i - k)) = url \<and>
     (\<forall>j < i - k. Site.URL (xs ! j) \<noteq> url)"
proof (induction xs arbitrary: k)
  case Nil
  then show ?case by simp
next
  case (Cons s rest)
  show ?case
  proof (cases "Site.URL s = url")
    case True
    have "\<exists>j < i - k. Site.URL ((s # rest) ! j) = url" if "k < i"
      using that True by (intro exI [of _ 0]) simp
    then show ?thesis using True by (cases "i = k") (auto simp: le_less)
  next
    case False
    have "(\<forall>j < i - k. Site.URL ((s # rest) ! j) \<noteq> url) \<longleftrightarrow>
          (\<forall>j < i - Suc k. Site.URL (rest ! j) \<noteq> url)" if "k < i"
    proof
      assume a: "\<forall>j < i - k. Site.URL ((s # rest) ! j) \<noteq> url"
      show "\<forall>j < i - Suc k. Site.URL (rest ! j) \<noteq> url"
      proof (intro allI impI)
        fix j assume "j < i - Suc k"
        then have "Suc j < i - k" using that by arith
        with a have "Site.URL ((s # rest) ! Suc j) \<noteq> url" by blast
        then show "Site.URL (rest ! j) \<noteq> url" by simp
      qed
    next
      assume a: "\<forall>j < i - Suc k. Site.URL (rest ! j) \<noteq> url"
      show "\<forall>j < i - k. Site.URL ((s # rest) ! j) \<noteq> url"
      proof (intro allI impI)
        fix j assume j: "j < i - k"
        show "Site.URL ((s # rest) ! j) \<noteq> url"
        proof (cases j)
          case 0
          then show ?thesis using False by simp
        next
          case (Suc j')
          with j have "j' < i - Suc k" by arith
          with a Suc show ?thesis by simp
        qed
      qed
    qed
    moreover have "(s # rest) ! (i - k) = rest ! (i - Suc k)" if "k < i"
      using that by (simp add: nth_Cons' Suc_diff_Suc)
    moreover have "i - k < length (s # rest) \<longleftrightarrow> i - Suc k < length rest" if "k < i"
      using that by auto
    ultimately show ?thesis
      using False Cons.IH [of "Suc k"]
      by (cases "k < i") (auto simp: not_less)
  qed
qed

lemma SiteByURL_from_None:
  "SiteByURL_from xs k url = None \<longleftrightarrow> (\<forall>s \<in> set xs. Site.URL s \<noteq> url)"
  by (induction xs arbitrary: k) auto

lemma SiteByName_from_as_URL:
  "SiteByName_from ul xs k lower =
     SiteByURL_from (map (\<lambda>s. s\<lparr>Site.URL := ToLower ul (Site.Name s)\<rparr>) xs) k lower"
  by (induction xs arbitrary: k) auto

lemma char_eq_char_of: "c = char_of (n::nat) \<longleftrightarrow> of_char c = n mod 256"
  by (metis char_of_char of_char_of)

lemma all_less_2: "(\<forall>j < (2::nat). P j) \<longleftrightarrow> P 0 \<and> P 1"
  by (auto simp: less_2_cases_iff)

section \<open>Facts about \<^verbatim>\<open>main\<close>\<close>

lemma backend_calls_main:
  "backend_calls (fst (main d rt fl e)) =
     [\<lparr>Mode = (if flag_value (flag_mode fl) ''standalone'' = ''hub'' then ''hub'' else ''standalone''),
       GRPCAddr = flag_value (flag_addr fl) (defaultListenAddr d),
       HTTPAddr = flag_value (flag_http_addr fl) (defaultHTTPAddr d),
       DataDir = flag_value (flag_data_dir fl) (defaultDataDir d),
       HubAddr = flag_value (flag_hub_addr fl) (os_Getenv e ''NEKKUS_HUB_ADDR''),
       ModuleID = flag_value (flag_module_id fl) (defaultModuleID d),
       Version = flag_value (flag_version fl) (defaultVersion d),
       StartHTTP = (if flag_value (flag_mode fl) ''standalone'' = ''hub''
                    then (if \<not> flag_value (flag_ui fl) False then shouldShowUIFromEnv rt e
                          else flag_value (flag_ui fl) False)
                    else True)\<rparr>]"
  by (auto simp: main_def Let_def runWailsUI_def split: sum.splits option.splits prod.splits)

section \<open>The availability check of one site\<close>

text \<open>
  C1. Whatever the site and whatever the network answers, \<^verbatim>\<open>checkOne\<close> with a client
  returns a Result, and its \<open>OK\<close> is true exactly when the request could be built and was
  answered, the status code is at least 200 and below 400, reading the body (through the
  limit of 128 * 1024 bytes) gave no error, the bytes read (the first 128 * 1024 of the body)
  are at least 2000, and the lowercased bytes contain none of \<open>blockPhrases\<close>. So a
  response that is too short or that contains a block phrase gives \<open>OK = False\<close>.
\<close>

theorem checkOne_OK_iff:
  "\<exists>r w'. checkOne env ctx (Some c) site timeout w = Some (r, w') \<and>
     (OK r \<longleftrightarrow>
        (\<exists>req resp.
           NewRequestWithContext env ctx ''GET'' (Site.URL site) = Inr req \<and>
           Do env (length w) c
              (Header_Set ''Accept'' accept (Header_Set ''User-Agent'' user_agent req)) = Inr resp \<and>
           200 \<le> StatusCode resp \<and> StatusCode resp < 400 \<and>
           snd (ReadAll (LimitReader (Body resp) (128 * 1024))) = None \<and>
           2000 \<le> length (take (128 * 1024) (content (Body resp))) \<and>
           (\<forall>p \<in> set blockPhrases.
              \<not> Contains (ToLower (unicode_lower env) (take (128 * 1024) (content (Body resp)))) p)))"
  by (auto simp: checkOne_def Let_def ReadAll_def LimitReader_def maxBodyCheck_def minBodySize_def
       any_phrase_iff split: sum.splits option.splits)

theorem checkOne_OK_iff_witness:
  "\<exists>r w'. checkOne env_page () (Some client0) site_claude 5000000000 [] = Some (r, w') \<and> OK r"
  using checkOne_OK_iff [of env_page "()" client0 site_claude 5000000000 "[]"]
  by (simp add: env_page_def plain_request_def site_claude_def ReadAll_def LimitReader_def
        ToLower_replicate_digit blockPhrases_def Contains_replicate_other)

text \<open>
  C2, as stated, fails: the text of a lower-level error is copied into \<open>Error\<close> as it is, so
  an error whose text is empty gives a failed check with an empty \<open>Error\<close>. Here the server
  answers 200 and the first read of the body fails with such an error.
\<close>

theorem checkOne_empty_Error_counterexample:
  "map_option fst (checkOne env_broken_body () (Some client0) site_claude 5000000000 []) =
     Some \<lparr>Result.Name = ''Claude'', Result.URL = ''https://claude.ai'', OK = False,
            LatencyMs = 42, Error = []\<rparr>"
  by (simp add: checkOne_def env_broken_body_def plain_request_def site_claude_def Let_def
        ReadAll_def LimitReader_def maxBodyCheck_def)

text \<open>
  C2, amended. A Result with \<open>OK\<close> true always has an empty \<open>Error\<close>. When the errors that
  \<^verbatim>\<open>http.NewRequestWithContext\<close>, \<^verbatim>\<open>client.Do\<close> and the read of the body can give all have a
  non-empty text, \<open>Error\<close> is empty exactly when \<open>OK\<close> is true.
\<close>

theorem checkOne_Error_iff_OK:
  assumes ret: "checkOne env ctx client site timeout w = Some (r, w')"
  shows "(OK r \<longrightarrow> Error r = []) \<and>
         (NewRequestWithContext env ctx ''GET'' (Site.URL site) \<noteq> Inl [] \<and>
          (\<forall>c req. Do env (length w) c req \<noteq> Inl []) \<and>
          (\<forall>c req resp. Do env (length w) c req = Inr resp \<longrightarrow> read_error (Body resp) \<noteq> Some [])
          \<longrightarrow> (Error r = [] \<longleftrightarrow> OK r))"
  using ret
  by (auto simp: checkOne_def Let_def ReadAll_def LimitReader_def msg_short_nonempty
        msg_block_nonempty split: sum.splits option.splits if_splits)

theorem checkOne_Error_iff_OK_witness:
  "\<exists>r w'. checkOne env_page () (Some client0) site_claude 5000000000 [] = Some (r, w') \<and>
      (Error r = [] \<longleftrightarrow> OK r)"
proof -
  obtain r w' where
    ret: "checkOne env_page () (Some client0) site_claude 5000000000 [] = Some (r, w')"
    using checkOne_non_nil [of env_page "()" client0 site_claude 5000000000 "[]"] by auto
  have h1: "NewRequestWithContext env_page () ''GET'' (Site.URL site_claude) \<noteq> Inl []"
    by (simp add: env_page_def plain_request_def)
  have h2: "\<forall>c req. Do env_page (length ([] :: unit fetches)) c req \<noteq> Inl []"
    by (simp add: env_page_def)
  have h3: "\<forall>c req resp. Do env_page (length ([] :: unit fetches)) c req = Inr resp
              \<longrightarrow> read_error (Body resp) \<noteq> Some []"
    by (auto simp: env_page_def)
  have "Error r = [] \<longleftrightarrow> OK r"
    using checkOne_Error_iff_OK [OF ret] h1 h2 h3 by blast
  with ret show ?thesis by blast
qed

text \<open>
  C10, as stated, fails in its "only if" half: the text of a failed body read is copied into
  \<open>Error\<close> as it is. Here the server answers 200 with status text \<^verbatim>\<open>200 OK\<close> and the
  first read of the body fails with an error whose text is \<^verbatim>\<open>HTTP 200 OK\<close>: the status
  code is in range and the Result carries \<open>Error = ''HTTP '' @ Status\<close>.
\<close>

theorem checkOne_status_text_counterexample:
  "map_option fst (checkOne env_status_text_error () (Some client0) site_claude 5000000000 []) =
     Some \<lparr>Result.Name = ''Claude'', Result.URL = ''https://claude.ai'', OK = False,
            LatencyMs = 42, Error = ''HTTP '' @ ''200 OK''\<rparr>"
  by (simp add: checkOne_def env_status_text_error_def plain_request_def site_claude_def Let_def
        ReadAll_def LimitReader_def maxBodyCheck_def)

text \<open>
  C10, amended. When a response was obtained: if its status code is below 200 or at least
  400 the Result is the failure with \<open>Error = ''HTTP '' @ Status\<close>; otherwise (so for every
  redirect status 300 to 399) the Result is computed from the body alone: the text of the
  read error, the too-short message, the block-phrase message or success, and when the read
  succeeded its \<open>Error\<close> does not start with \<open>''HTTP ''\<close>. So \<open>Error\<close> is
  \<open>''HTTP '' @ Status\<close> exactly when the status code is below 200 or at least 400, or the
  read of the body failed with an error whose own text is \<open>''HTTP '' @ Status\<close>.
\<close>

theorem checkOne_status_check:
  assumes new: "NewRequestWithContext env ctx ''GET'' (Site.URL site) = Inr req"
    and do: "Do env (length w) c
               (Header_Set ''Accept'' accept (Header_Set ''User-Agent'' user_agent req)) = Inr resp"
  shows "\<exists>r w'. checkOne env ctx (Some c) site timeout w = Some (r, w') \<and>
     (if StatusCode resp < 200 \<or> 400 \<le> StatusCode resp
      then r = \<lparr>Result.Name = Site.Name site, Result.URL = Site.URL site, OK = False,
                 LatencyMs = Since_Milliseconds env (length w),
                 Error = ''HTTP '' @ Status resp\<rparr>
      else r = \<lparr>Result.Name = Site.Name site, Result.URL = Site.URL site,
                 OK = (snd (ReadAll (LimitReader (Body resp) (128 * 1024))) = None \<and>
                       2000 \<le> length (take (128 * 1024) (content (Body resp))) \<and>
                       \<not> (\<exists>p \<in> set blockPhrases. Contains
                            (ToLower (unicode_lower env) (take (128 * 1024) (content (Body resp)))) p)),
                 LatencyMs = Since_Milliseconds env (length w),
                 Error =
                   (case snd (ReadAll (LimitReader (Body resp) (128 * 1024))) of
                      Some e \<Rightarrow> e
                    | None \<Rightarrow>
                        if length (take (128 * 1024) (content (Body resp))) < 2000 then msg_short
                        else if \<exists>p \<in> set blockPhrases. Contains
                            (ToLower (unicode_lower env) (take (128 * 1024) (content (Body resp)))) p
                        then msg_block else [])\<rparr> \<and>
               (snd (ReadAll (LimitReader (Body resp) (128 * 1024))) = None
                  \<longrightarrow> \<not> HasPrefix (Error r) ''HTTP '')) \<and>
     (Error r = ''HTTP '' @ Status resp \<longleftrightarrow>
        (StatusCode resp < 200 \<or> 400 \<le> StatusCode resp) \<or>
        snd (ReadAll (LimitReader (Body resp) (128 * 1024))) = Some (''HTTP '' @ Status resp))"
  using new do
  by (auto simp: checkOne_def Let_def ReadAll_def LimitReader_def maxBodyCheck_def minBodySize_def
       any_phrase_iff msg_short_not_HTTP msg_block_not_HTTP msg_short_neq_HTTP
       msg_block_neq_HTTP split: option.splits)

theorem checkOne_status_check_witness:
  "\<exists>r w'. checkOne env_moved () (Some client0) site_claude 5000000000 [] = Some (r, w') \<and>
      \<not> OK r \<and> Error r = msg_short"
proof -
  have new: "NewRequestWithContext env_moved () ''GET'' (Site.URL site_claude) =
      Inr \<lparr>Ctx = (), Method = ''GET'', ReqURL = ''https://claude.ai'', Header = []\<rparr>"
    by (simp add: env_moved_def plain_request_def site_claude_def)
  have do: "Do env_moved (length ([] :: unit fetches)) client0
      (Header_Set ''Accept'' accept (Header_Set ''User-Agent'' user_agent
         \<lparr>Ctx = (), Method = ''GET'', ReqURL = ''https://claude.ai'', Header = []\<rparr>)) =
      Inr \<lparr>StatusCode = 301, Status = ''301 Moved Permanently'',
           Body = \<lparr>content = [], read_error = None\<rparr>\<rparr>"
    by (simp add: env_moved_def)
  show ?thesis
    using checkOne_status_check [OF new do, of 5000000000]
    by (auto simp: ReadAll_def LimitReader_def)
qed

section \<open>The check of a list of sites\<close>

text \<open>
  C3. For every list of sites (and every client, nil or not) \<^verbatim>\<open>Check\<close> returns, and returns
  as many Results as there are sites, the i-th carrying the \<open>Name\<close> and the \<open>URL\<close> of the i-th
  site.
\<close>

theorem Check_one_Result_per_site:
  "\<exists>rs w'. Check env ctx client sites timeout w = Some (rs, w') \<and>
     length rs = length sites \<and>
     map (\<lambda>r. (Result.Name r, Result.URL r)) rs = map (\<lambda>s. (Site.Name s, Site.URL s)) sites"
proof -
  define c where "c = (case client of
       None \<Rightarrow> \<lparr>Timeout = timeout, CheckRedirect = Some default_CheckRedirect\<rparr>
     | Some c \<Rightarrow> c)"
  from Check_loop_results [of env ctx c timeout sites "[]" w] obtain rs new where
    loop: "Check_loop env ctx (Some c) timeout sites [] w = Some (rs, w @ new)"
    and names: "map (\<lambda>r. (Result.Name r, Result.URL r)) rs = map (\<lambda>s. (Site.Name s, Site.URL s)) sites"
    by auto
  have "length rs = length sites"
    using names by (metis length_map)
  with loop names show ?thesis
    by (simp add: Check_def c_def)
qed


theorem Check_one_Result_per_site_witness:
  "\<exists>rs w'. Check env_page () None [site_claude] 5000000000 [] = Some (rs, w') \<and>
     length rs = 1 \<and> map Result.Name rs = [''Claude'']"
  using Check_one_Result_per_site [of env_page "()" None "[site_claude]" 5000000000 "[]"]
  by (auto simp: site_claude_def)

text \<open>
  C7. \<open>DefaultSites\<close> is the list ChatGPT, Gemini, Claude, Google, YouTube, Netflix with
  the URLs of the source, in this order, and \<^verbatim>\<open>Check\<close> on it returns six Results carrying
  these names and URLs in the same order, whatever the network answers.
\<close>

theorem Check_DefaultSites:
  "map (\<lambda>s. (Site.Name s, Site.URL s)) DefaultSites =
     [(''ChatGPT'', ''https://chat.openai.com''), (''Gemini'', ''https://gemini.google.com''),
      (''Claude'', ''https://claude.ai''), (''Google'', ''https://www.google.com''),
      (''YouTube'', ''https://www.youtube.com''), (''Netflix'', ''https://www.netflix.com'')] \<and>
   (\<exists>rs w'. Check env ctx client DefaultSites timeout w = Some (rs, w') \<and>
      map (\<lambda>r. (Result.Name r, Result.URL r)) rs =
        [(''ChatGPT'', ''https://chat.openai.com''), (''Gemini'', ''https://gemini.google.com''),
         (''Claude'', ''https://claude.ai''), (''Google'', ''https://www.google.com''),
         (''YouTube'', ''https://www.youtube.com''), (''Netflix'', ''https://www.netflix.com'')])"
proof -
  define c where "c = (case client of
       None \<Rightarrow> \<lparr>Timeout = timeout, CheckRedirect = Some default_CheckRedirect\<rparr>
     | Some c \<Rightarrow> c)"
  from Check_loop_results [of env ctx c timeout DefaultSites "[]" w] obtain rs new where
    loop: "Check_loop env ctx (Some c) timeout DefaultSites [] w = Some (rs, w @ new)"
    and names: "map (\<lambda>r. (Result.Name r, Result.URL r)) rs =
       map (\<lambda>s. (Site.Name s, Site.URL s)) DefaultSites"
    by auto
  have "Check env ctx client DefaultSites timeout w = Some (rs, w @ new)"
    using loop by (simp add: Check_def c_def)
  with names have "\<exists>rs w'. Check env ctx client DefaultSites timeout w = Some (rs, w') \<and>
      map (\<lambda>r. (Result.Name r, Result.URL r)) rs =
        map (\<lambda>s. (Site.Name s, Site.URL s)) DefaultSites"
    by blast
  then show ?thesis
    by (simp add: name_url_DefaultSites)
qed

theorem Check_DefaultSites_witness:
  "\<exists>rs w'. Check env_page () None DefaultSites 5000000000 [] = Some (rs, w') \<and>
     map Result.Name rs = [''ChatGPT'', ''Gemini'', ''Claude'', ''Google'', ''YouTube'', ''Netflix'']"
proof -
  from Check_DefaultSites [of env_page "()" None 5000000000 "[]"] obtain rs w' where
    chk: "Check env_page () None DefaultSites 5000000000 [] = Some (rs, w')"
    and names: "map (\<lambda>r. (Result.Name r, Result.URL r)) rs =
        [(''ChatGPT'', ''https://chat.openai.com''), (''Gemini'', ''https://gemini.google.com''),
         (''Claude'', ''https://claude.ai''), (''Google'', ''https://www.google.com''),
         (''YouTube'', ''https://www.youtube.com''), (''Netflix'', ''https://www.netflix.com'')]"
    by auto
  have "map Result.Name rs = map fst (map (\<lambda>r. (Result.Name r, Result.URL r)) rs)"
    by simp
  also have "\<dots> = [''ChatGPT'', ''Gemini'', ''Claude'', ''Google'', ''YouTube'', ''Netflix'']"
    unfolding names by simp
  finally have short: "map Result.Name rs =
      [''ChatGPT'', ''Gemini'', ''Claude'', ''Google'', ''YouTube'', ''Netflix'']" .
  show ?thesis
    by (rule exI [of _ rs], rule exI [of _ w']) (simp add: chk short)
qed

text \<open>
  C5, as stated, fails in its last part: with a nil client and a timeout of zero the client
  that \<^verbatim>\<open>Check\<close> builds has \<open>Timeout = 0\<close>, which for \<^verbatim>\<open>net/http\<close> means no time limit.
  Here the one fetch of the run has no deadline.
\<close>

theorem Check_nil_client_unbounded_counterexample:
  "map_option (fetch_deadlines 0 \<circ> snd) (Check env_page () None [site_claude] 0 []) = Some [None]"
  by (simp add: Check_def checkOne_env_page fetch_deadlines_def deadline_def)

text \<open>
  C5, amended. With a nil client \<^verbatim>\<open>Check\<close> makes at most one fetch per site, each with a
  client whose \<open>Timeout\<close> is the timeout argument and whose redirect policy answers
  \<^verbatim>\<open>http.ErrUseLastResponse\<close> to every redirect (the redirect response is returned as it
  is); when the timeout argument is positive, each fetch has the deadline "start + timeout".
\<close>

theorem Check_nil_client:
  "\<exists>rs new. Check env ctx None sites timeout w = Some (rs, w @ new) \<and>
     length new \<le> length sites \<and>
     (\<forall>(c, req) \<in> set new.
        Timeout c = timeout \<and>
        (\<exists>f. CheckRedirect c = Some f \<and> (\<forall>r via. f r via = Some ErrUseLastResponse)) \<and>
        (0 < timeout \<longrightarrow> (\<forall>now. deadline c now = Some (now + timeout))))"
proof -
  define c :: "'a Client" where "c = \<lparr>Timeout = timeout, CheckRedirect = Some default_CheckRedirect\<rparr>"
  from Check_loop_results [of env ctx c timeout sites "[]" w] obtain rs new where
    loop: "Check_loop env ctx (Some c) timeout sites [] w = Some (rs, w @ new)"
    and len: "length new \<le> length sites" and cl: "fst ` set new \<subseteq> {c}"
    by auto
  have "Check env ctx None sites timeout w = Some (rs, w @ new)"
    using loop by (simp add: Check_def c_def)
  moreover have "\<forall>(c', req) \<in> set new.
        Timeout c' = timeout \<and>
        (\<exists>f. CheckRedirect c' = Some f \<and> (\<forall>r via. f r via = Some ErrUseLastResponse)) \<and>
        (0 < timeout \<longrightarrow> (\<forall>now. deadline c' now = Some (now + timeout)))"
  proof (clarify)
    fix c' req assume "(c', req) \<in> set new"
    then have "c' = c" using cl by force
    then show "Timeout c' = timeout \<and>
        (\<exists>f. CheckRedirect c' = Some f \<and> (\<forall>r via. f r via = Some ErrUseLastResponse)) \<and>
        (0 < timeout \<longrightarrow> (\<forall>now. deadline c' now = Some (now + timeout)))"
      by (simp add: c_def default_CheckRedirect_def deadline_def)
  qed
  ultimately show ?thesis using len by blast
qed

theorem Check_nil_client_witness:
  "\<exists>rs c req. Check env_page () None [site_claude] 5000000000 [] = Some (rs, [(c, req)]) \<and>
     Timeout c = 5000000000 \<and> deadline c 0 = Some 5000000000"
proof -
  obtain rs c req where
    chk: "Check env_page () None [site_claude] 5000000000 [] = Some (rs, [(c, req)])"
    by (simp add: Check_def checkOne_env_page)
  have "Timeout c = 5000000000 \<and> deadline c 0 = Some 5000000000"
    using Check_nil_client [of env_page "()" "[site_claude]" 5000000000 "[]"] chk by auto
  with chk show ?thesis by blast
qed

section \<open>Looking a site up\<close>

text \<open>
  C8. \<^verbatim>\<open>SiteByName\<close> returns the pointer to the first entry of \<open>DefaultSites\<close> whose
  lowercased \<open>Name\<close> equals the lowercased argument (the comparison without regard to case
  of the source), and nil exactly when no entry matches; \<^verbatim>\<open>SiteByURL\<close> returns the pointer
  to the first entry whose \<open>URL\<close> is equal to the argument, and nil exactly when none is. A
  pointer into \<open>DefaultSites\<close> is the index of its entry.
\<close>

theorem SiteByName_SiteByURL_first_match:
  "(SiteByName ul name = Some i \<longleftrightarrow>
      i < length DefaultSites \<and>
      ToLower ul (Site.Name (DefaultSites ! i)) = ToLower ul name \<and>
      (\<forall>j < i. ToLower ul (Site.Name (DefaultSites ! j)) \<noteq> ToLower ul name)) \<and>
   (SiteByName ul name = None \<longleftrightarrow>
      (\<forall>s \<in> set DefaultSites. ToLower ul (Site.Name s) \<noteq> ToLower ul name)) \<and>
   (SiteByURL url = Some i \<longleftrightarrow>
      i < length DefaultSites \<and> Site.URL (DefaultSites ! i) = url \<and>
      (\<forall>j < i. Site.URL (DefaultSites ! j) \<noteq> url)) \<and>
   (SiteByURL url = None \<longleftrightarrow> (\<forall>s \<in> set DefaultSites. Site.URL s \<noteq> url))"
proof (intro conjI)
  show "SiteByName ul name = Some i \<longleftrightarrow>
      i < length DefaultSites \<and>
      ToLower ul (Site.Name (DefaultSites ! i)) = ToLower ul name \<and>
      (\<forall>j < i. ToLower ul (Site.Name (DefaultSites ! j)) \<noteq> ToLower ul name)"
    unfolding SiteByName_def Let_def SiteByName_from_as_URL SiteByURL_from_Some
    by auto
  show "SiteByName ul name = None \<longleftrightarrow>
      (\<forall>s \<in> set DefaultSites. ToLower ul (Site.Name s) \<noteq> ToLower ul name)"
    unfolding SiteByName_def Let_def SiteByName_from_as_URL SiteByURL_from_None
    by auto
  show "SiteByURL url = Some i \<longleftrightarrow>
      i < length DefaultSites \<and> Site.URL (DefaultSites ! i) = url \<and>
      (\<forall>j < i. Site.URL (DefaultSites ! j) \<noteq> url)"
    unfolding SiteByURL_def SiteByURL_from_Some by simp
  show "SiteByURL url = None \<longleftrightarrow> (\<forall>s \<in> set DefaultSites. Site.URL s \<noteq> url)"
    unfolding SiteByURL_def SiteByURL_from_None by simp
qed

theorem SiteByName_SiteByURL_first_match_witness:
  "SiteByName id ''CLAUDE'' = Some 2 \<and> SiteByURL ''https://claude.ai'' = Some 2"
  using SiteByName_SiteByURL_first_match [of id "''CLAUDE''" 2 "''https://claude.ai''"]
  by (simp add: DefaultSites_def ToLower_def is_ascii_def ascii_lower_def all_less_2 char_eq_char_of)

section \<open>Launch mode\<close>

text \<open>
  C4, as stated, fails: \<^verbatim>\<open>main\<close> does not check the hub address, the module id or the
  version. Started with \<^verbatim>\<open>--mode hub\<close> alone and \<^verbatim>\<open>NEKKUS_HUB_ADDR\<close> unset, it calls
  \<^verbatim>\<open>RunBackend\<close> in mode hub with an empty \<open>HubAddr\<close>.
\<close>

theorem main_hub_empty_hub_address_counterexample:
  "map Mode (backend_calls (fst
      (main defaults0 runtime0 (no_flags\<lparr>flag_mode := Some ''hub''\<rparr>) []))) = [''hub''] \<and>
   map HubAddr (backend_calls (fst
      (main defaults0 runtime0 (no_flags\<lparr>flag_mode := Some ''hub''\<rparr>) []))) = [[]]"
  by (simp add: main_def Let_def flag_value_def no_flags_def defaults0_def runtime0_def
        os_Getenv_def shouldShowUIFromEnv_def TrimSpace_def ToLower_def)

text \<open>
  C4, amended. \<^verbatim>\<open>main\<close> calls \<^verbatim>\<open>RunBackend\<close> once; the mode it passes is hub when the
  \<^verbatim>\<open>--mode\<close> flag is \<^verbatim>\<open>hub\<close> and standalone otherwise, and the hub address, module id and
  version it passes are the values of \<^verbatim>\<open>--hub-addr\<close> (default: the environment variable
  \<^verbatim>\<open>NEKKUS_HUB_ADDR\<close>), \<^verbatim>\<open>--module-id\<close> and \<^verbatim>\<open>--version\<close> (defaults: the built-in constants)
  as they are, empty or not.
\<close>

theorem main_mode_and_identity:
  "\<exists>opts. backend_calls (fst (main d rt fl e)) = [opts] \<and>
     (flag_value (flag_mode fl) ''standalone'' = ''hub'' \<longrightarrow> Mode opts = ''hub'') \<and>
     (flag_value (flag_mode fl) ''standalone'' \<noteq> ''hub'' \<longrightarrow> Mode opts = ''standalone'') \<and>
     HubAddr opts = flag_value (flag_hub_addr fl) (os_Getenv e ''NEKKUS_HUB_ADDR'') \<and>
     ModuleID opts = flag_value (flag_module_id fl) (defaultModuleID d) \<and>
     Version opts = flag_value (flag_version fl) (defaultVersion d)"
  unfolding backend_calls_main by simp

theorem main_mode_and_identity_witness:
  "\<exists>opts. backend_calls (fst (main defaults0 runtime0
       (no_flags\<lparr>flag_mode := Some ''hub'', flag_hub_addr := Some ''127.0.0.1:9000''\<rparr>) [])) = [opts] \<and>
     Mode opts = ''hub'' \<and> HubAddr opts = ''127.0.0.1:9000'' \<and> ModuleID opts = ''net'' \<and>
     Version opts = ''0.1.0''"
  using main_mode_and_identity [of defaults0 runtime0
      "no_flags\<lparr>flag_mode := Some ''hub'', flag_hub_addr := Some ''127.0.0.1:9000''\<rparr>" "[]"]
  by (simp add: flag_value_def no_flags_def defaults0_def)

text \<open>
  C9. For every value of \<^verbatim>\<open>--mode\<close> other than \<^verbatim>\<open>hub\<close>, \<^verbatim>\<open>main\<close> calls \<^verbatim>\<open>RunBackend\<close> once
  with \<open>Mode = ''standalone''\<close> and \<open>StartHTTP = True\<close>; when the backend starts, the UI is
  run next; the only failure is the error \<^verbatim>\<open>RunBackend\<close> itself returns. The run is the one
  of \<^verbatim>\<open>--mode standalone\<close>: no mode value is rejected.
\<close>

theorem main_other_mode_standalone:
  assumes other: "flag_value (flag_mode fl) ''standalone'' \<noteq> ''hub''"
  shows "\<exists>opts. backend_calls (fst (main d rt fl e)) = [opts] \<and>
           Mode opts = ''standalone'' \<and> StartHTTP opts \<and>
           (\<forall>srv. RunBackend rt e opts = Inr srv \<longrightarrow>
              fst (main d rt fl e) =
                [RunBackendCalled opts, AppRun] @
                (case app_Run rt of None \<Rightarrow> [] | Some err \<Rightarrow> [LogFatal err])) \<and>
           (\<forall>err. RunBackend rt e opts = Inl err \<longrightarrow>
              fst (main d rt fl e) = [RunBackendCalled opts, LogFatal err]) \<and>
           main d rt fl e = main d rt (fl\<lparr>flag_mode := Some ''standalone''\<rparr>) e"
  using other
  by (auto simp: main_def Let_def runWailsUI_def flag_value_def split: sum.splits option.splits)

theorem main_other_mode_standalone_witness:
  "fst (main defaults0 runtime0 (no_flags\<lparr>flag_mode := Some ''module''\<rparr>) []) =
     [RunBackendCalled \<lparr>Mode = ''standalone'', GRPCAddr = ''127.0.0.1:50051'',
        HTTPAddr = ''127.0.0.1:8080'', DataDir = ''data'', HubAddr = [], ModuleID = ''net'',
        Version = ''0.1.0'', StartHTTP = True\<rparr>, AppRun]"
proof -
  have other: "flag_value (flag_mode (no_flags\<lparr>flag_mode := Some ''module''\<rparr>)) ''standalone'' \<noteq> ''hub''"
    by (simp add: flag_value_def)
  from main_other_mode_standalone [OF other, of defaults0 runtime0 "[]"]
  have "main defaults0 runtime0 (no_flags\<lparr>flag_mode := Some ''module''\<rparr>) [] =
        main defaults0 runtime0 (no_flags\<lparr>flag_mode := Some ''module'', flag_mode := Some ''standalone''\<rparr>) []"
    by blast
  then show ?thesis
    by (simp add: main_def Let_def flag_value_def no_flags_def defaults0_def runtime0_def
        os_Getenv_def shouldShowUIFromEnv_def TrimSpace_def ToLower_def runWailsUI_def)
qed

section \<open>Hiding the console window\<close>

text \<open>
  C6. \<^verbatim>\<open>setProcessNoWindow\<close> on a nil command changes nothing. On a command it replaces the
  field \<open>SysProcAttr\<close> by an attribute record in which only \<open>HideWindow\<close> is set, and leaves
  the path, the arguments, the environment, the directory and the standard streams of the
  command, and every other command of the store, as they were.
\<close>

theorem setProcessNoWindow_frame:
  "setProcessNoWindow None h = h \<and>
   (h a = Some c \<longrightarrow>
      setProcessNoWindow (Some a) h a =
        Some (c\<lparr>SysProcAttr := Some \<lparr>HideWindow = True, CmdLine = [], CreationFlags = 0,
                 Token = 0, ProcessAttributes = None, ThreadAttributes = None,
                 NoInheritHandles = False, AdditionalInheritedHandles = [],
                 ParentProcess = 0\<rparr>\<rparr>) \<and>
      (\<forall>c'. setProcessNoWindow (Some a) h a = Some c' \<longrightarrow>
         Path c' = Path c \<and> Args c' = Args c \<and> Env c' = Env c \<and> Dir c' = Dir c \<and>
         Stdin c' = Stdin c \<and> Stdout c' = Stdout c \<and> Stderr c' = Stderr c \<and>
         Cmd.more c' = Cmd.more c) \<and>
      (\<forall>b. b \<noteq> a \<longrightarrow> setProcessNoWindow (Some a) h b = h b))"
  by (auto simp: setProcessNoWindow_def hide_window_attr_def)

theorem setProcessNoWindow_frame_witness:
  "setProcessNoWindow (Some 7) [7 \<mapsto> cmd0, 8 \<mapsto> cmd0] 7 =
     Some \<lparr>Path = ''sing-box'', Args = [''sing-box'', ''run''], Env = [], Dir = [],
            Stdin = None, Stdout = Some 1, Stderr = Some 2,
            SysProcAttr = Some hide_window_attr\<rparr> \<and>
   setProcessNoWindow (Some 7) [7 \<mapsto> cmd0, 8 \<mapsto> cmd0] 8 = Some cmd0"
  using setProcessNoWindow_frame [of "[7 \<mapsto> cmd0, 8 \<mapsto> cmd0]" 7 cmd0]
  by (simp add: cmd0_def hide_window_attr_def)

end
